theory Spec2Isabelle
  imports Main
begin

section \<open>Data model (models\_legacy.py)\<close>

text \<open>
  Only the columns read by the permission checks are kept, plus one descriptive column
  per table so that two rows with equal keys can still be told apart.
  \<open>Project.id\<close> is the primary key, \<open>ProjectMember.role\<close> is a non-nullable string
  column, \<open>Task.assigned_to\<close> is nullable.
\<close>

record project =
  project_id :: int
  project_name :: string
  project_owner_id :: int

record project_member =
  pm_user_id :: int
  pm_project_id :: int
  pm_role :: string

record task =
  task_id :: int
  task_title :: string
  task_project_id :: int
  task_assigned_to :: "int option"
  task_created_by :: int

text \<open>
  The queries the permission service sends. Any of them may raise (connection lost,
  statement error); \<open>unavailable\<close> says for which queries the datastore raises.
\<close>

datatype db_query =
    ProjectGet int
  | ProjectMemberFirst int int
  | ProjectMemberAdminFirst int int
  | TaskGet int

datatype exn = DatastoreError | RedisError | OverflowError

record datastore =
  projects :: "project list"
  project_members :: "project_member list"
  tasks :: "task list"
  unavailable :: "db_query \<Rightarrow> bool"

text \<open>\<open>Project.query.get(project_id)\<close>\<close>

definition Project_query_get :: "datastore \<Rightarrow> int \<Rightarrow> exn + project option" where
  "Project_query_get db pid =
     (if unavailable db (ProjectGet pid) then Inl DatastoreError
      else Inr (find (\<lambda>p. project_id p = pid) (projects db)))"

text \<open>\<open>ProjectMember.query.filter_by(project_id=..., user_id=...).first()\<close>\<close>

definition ProjectMember_query_first :: "datastore \<Rightarrow> int \<Rightarrow> int \<Rightarrow> exn + project_member option" where
  "ProjectMember_query_first db pid uid =
     (if unavailable db (ProjectMemberFirst pid uid) then Inl DatastoreError
      else Inr (find (\<lambda>m. pm_project_id m = pid \<and> pm_user_id m = uid) (project_members db)))"

text \<open>\<open>ProjectMember.query.filter_by(project_id=..., user_id=..., role='admin').first()\<close>\<close>

definition ProjectMember_query_first_admin :: "datastore \<Rightarrow> int \<Rightarrow> int \<Rightarrow> exn + project_member option" where
  "ProjectMember_query_first_admin db pid uid =
     (if unavailable db (ProjectMemberAdminFirst pid uid) then Inl DatastoreError
      else Inr (find (\<lambda>m. pm_project_id m = pid \<and> pm_user_id m = uid \<and> pm_role m = ''admin'')
                  (project_members db)))"

text \<open>\<open>Task.query.get(task_id)\<close>\<close>

definition Task_query_get :: "datastore \<Rightarrow> int \<Rightarrow> exn + task option" where
  "Task_query_get db tid =
     (if unavailable db (TaskGet tid) then Inl DatastoreError
      else Inr (find (\<lambda>t. task_id t = tid) (tasks db)))"


section \<open>services/permissions.py\<close>

text \<open>
  Each function is a \<open>try\<close> body, which may raise, wrapped by the
  \<open>except Exception\<close> handler that turns every exception into the denying result.
\<close>

type_synonym access_result = "bool \<times> project option \<times> string option"
type_synonym task_access_result = "bool \<times> task option \<times> string option"

definition check_project_access_try :: "datastore \<Rightarrow> int \<Rightarrow> int \<Rightarrow> exn + access_result" where
  "check_project_access_try db pid uid =
     (case Project_query_get db pid of
        Inl e \<Rightarrow> Inl e
      | Inr None \<Rightarrow> Inr (False, None, None)
      | Inr (Some p) \<Rightarrow>
          if project_owner_id p = uid then Inr (True, Some p, Some ''owner'')
          else (case ProjectMember_query_first db pid uid of
                  Inl e \<Rightarrow> Inl e
                | Inr (Some m) \<Rightarrow> Inr (True, Some p, Some (pm_role m))
                | Inr None \<Rightarrow> Inr (False, None, None)))"

definition check_project_access :: "datastore \<Rightarrow> int \<Rightarrow> int \<Rightarrow> access_result" where
  "check_project_access db pid uid =
     (case check_project_access_try db pid uid of
        Inl e \<Rightarrow> (False, None, None)
      | Inr r \<Rightarrow> r)"

definition check_project_admin_try :: "datastore \<Rightarrow> int \<Rightarrow> int \<Rightarrow> exn + bool" where
  "check_project_admin_try db pid uid =
     (case Project_query_get db pid of
        Inl e \<Rightarrow> Inl e
      | Inr None \<Rightarrow> Inr False
      | Inr (Some p) \<Rightarrow>
          if project_owner_id p = uid then Inr True
          else (case ProjectMember_query_first_admin db pid uid of
                  Inl e \<Rightarrow> Inl e
                | Inr member \<Rightarrow> Inr (member \<noteq> None)))"

definition check_project_admin :: "datastore \<Rightarrow> int \<Rightarrow> int \<Rightarrow> bool" where
  "check_project_admin db pid uid =
     (case check_project_admin_try db pid uid of
        Inl e \<Rightarrow> False
      | Inr b \<Rightarrow> b)"

definition check_project_member :: "datastore \<Rightarrow> int \<Rightarrow> int \<Rightarrow> bool" where
  "check_project_member db pid uid = fst (check_project_access db pid uid)"

definition check_task_access_try :: "datastore \<Rightarrow> int \<Rightarrow> int \<Rightarrow> exn + task_access_result" where
  "check_task_access_try db tid uid =
     (case Task_query_get db tid of
        Inl e \<Rightarrow> Inl e
      | Inr None \<Rightarrow> Inr (False, None, None)
      | Inr (Some t) \<Rightarrow>
          (case check_project_access db (task_project_id t) uid of
             (has_access, _, role) \<Rightarrow>
               if has_access then Inr (True, Some t, role)
               else Inr (False, None, None)))"

definition check_task_access :: "datastore \<Rightarrow> int \<Rightarrow> int \<Rightarrow> task_access_result" where
  "check_task_access db tid uid =
     (case check_task_access_try db tid uid of
        Inl e \<Rightarrow> (False, None, None)
      | Inr r \<Rightarrow> r)"

definition can_modify_task_try :: "datastore \<Rightarrow> int \<Rightarrow> int \<Rightarrow> exn + (bool \<times> task option)" where
  "can_modify_task_try db tid uid =
     (case Task_query_get db tid of
        Inl e \<Rightarrow> Inl e
      | Inr None \<Rightarrow> Inr (False, None)
      | Inr (Some t) \<Rightarrow>
          if task_created_by t = uid \<or> task_assigned_to t = Some uid then Inr (True, Some t)
          else if check_project_admin db (task_project_id t) uid then Inr (True, Some t)
          else Inr (False, None))"

definition can_modify_task :: "datastore \<Rightarrow> int \<Rightarrow> int \<Rightarrow> bool \<times> task option" where
  "can_modify_task db tid uid =
     (case can_modify_task_try db tid uid of
        Inl e \<Rightarrow> (False, None)
      | Inr r \<Rightarrow> r)"


section \<open>Reference definition of project access\<close>

text \<open>
  The four branches of the specification of \<open>resolve_project_access\<close>, written over the
  tables alone: no project, owner, member row, neither.
\<close>

definition project_with_id :: "datastore \<Rightarrow> int \<Rightarrow> project option" where
  "project_with_id db pid = find (\<lambda>p. project_id p = pid) (projects db)"

definition member_row :: "datastore \<Rightarrow> int \<Rightarrow> int \<Rightarrow> project_member option" where
  "member_row db pid uid =
     find (\<lambda>m. pm_project_id m = pid \<and> pm_user_id m = uid) (project_members db)"

definition task_with_id :: "datastore \<Rightarrow> int \<Rightarrow> task option" where
  "task_with_id db tid = find (\<lambda>t. task_id t = tid) (tasks db)"

definition resolve_project_access :: "datastore \<Rightarrow> int \<Rightarrow> int \<Rightarrow> access_result" where
  "resolve_project_access db pid uid =
     (if project_with_id db pid = None then (False, None, None)
      else if project_owner_id (the (project_with_id db pid)) = uid
        then (True, project_with_id db pid, Some ''owner'')
      else if member_row db pid uid \<noteq> None
        then (True, project_with_id db pid, Some (pm_role (the (member_row db pid uid))))
      else (False, None, None))"


section \<open>Scenario data\<close>

text \<open>
  Project 7 owned by user 1; user 2 and user 4 are plain members, user 3 is an admin;
  task 42 of project 7 was created by user 2 and is unassigned.
\<close>

definition project7 :: project where
  "project7 = \<lparr>project_id = 7, project_name = ''Launch'', project_owner_id = 1\<rparr>"

definition task42 :: task where
  "task42 = \<lparr>task_id = 42, task_title = ''Write tests'', task_project_id = 7,
              task_assigned_to = None, task_created_by = 2\<rparr>"

definition scenario_members :: "project_member list" where
  "scenario_members =
     [\<lparr>pm_user_id = 2, pm_project_id = 7, pm_role = ''member''\<rparr>,
      \<lparr>pm_user_id = 3, pm_project_id = 7, pm_role = ''admin''\<rparr>,
      \<lparr>pm_user_id = 4, pm_project_id = 7, pm_role = ''member''\<rparr>]"

definition scenario_db :: datastore where
  "scenario_db = \<lparr>projects = [project7], project_members = scenario_members,
                   tasks = [task42], unavailable = (\<lambda>q. False)\<rparr>"

text \<open>The same tables, with a stray membership row for the owner.\<close>

definition owner_row_db :: datastore where
  "owner_row_db = scenario_db\<lparr>project_members :=
       \<lparr>pm_user_id = 1, pm_project_id = 7, pm_role = ''member''\<rparr> # scenario_members\<rparr>"

text \<open>The same tables behind a datastore that raises on every query.\<close>

definition broken_db :: datastore where
  "broken_db = scenario_db\<lparr>unavailable := (\<lambda>q. True)\<rparr>"

text \<open>The same tables; only the membership queries raise.\<close>

definition flaky_db :: datastore where
  "flaky_db = scenario_db\<lparr>unavailable :=
       (\<lambda>q. case q of ProjectMemberFirst _ _ \<Rightarrow> True
                     | ProjectMemberAdminFirst _ _ \<Rightarrow> True
                     | _ \<Rightarrow> False)\<rparr>"



section \<open>core/token\_blacklist.py\<close>

text \<open>
  A \<open>datetime\<close> is counted in microseconds from 1970-01-01 00:00:00 and a \<open>timedelta\<close>
  is a signed number of microseconds. Python's \<open>datetime\<close> only reaches from
  \<open>datetime.min\<close> (0001-01-01 00:00:00) to \<open>datetime.max\<close>
  (9999-12-31 23:59:59.999999); adding a \<open>timedelta\<close> that leaves this range raises
  \<open>OverflowError\<close>. \<open>TokenBlacklist._memory_store\<close> is a dictionary from jti to
  expiry, empty when the class is loaded.
\<close>

type_synonym timestamp = int
type_synonym timedelta = int
type_synonym memory_store = "string \<rightharpoonup> timestamp"


definition timedelta_hours :: "int \<Rightarrow> timedelta" where
  "timedelta_hours h = h * 3600 * 1000000"


definition datetime_min :: timestamp where
  "datetime_min = - 62135596800000000"

definition datetime_max :: timestamp where
  "datetime_max = 253402300799999999"

definition datetime_in_range :: "int \<Rightarrow> bool" where
  "datetime_in_range t = (datetime_min \<le> t \<and> t \<le> datetime_max)"

text \<open>\<open>datetime + timedelta\<close>\<close>

definition datetime_plus :: "timestamp \<Rightarrow> timedelta \<Rightarrow> exn + timestamp" where
  "datetime_plus d delta =
     (if datetime_in_range (d + delta) then Inr (d + delta) else Inl OverflowError)"

text \<open>
  The Redis client is an external collaborator. Only the outcome of the two commands the
  module sends matters here: each either returns or raises.
\<close>

datatype 'a reply = Raises | Returns 'a

record redis_client =
  redis_setex :: "string \<Rightarrow> timedelta \<Rightarrow> unit reply"
  redis_exists :: "string \<Rightarrow> int reply"

text \<open>
  \<open>flask.current_app\<close>: outside an application context every access raises
  \<open>RuntimeError\<close>; inside one, \<open>extensions\<close> holds a usable Redis client or none.
\<close>

datatype current_app = OutsideAppContext | AppContext "redis_client option"

fun get_redis_client :: "current_app \<Rightarrow> redis_client option" where
  "get_redis_client OutsideAppContext = None"
| "get_redis_client (AppContext extension) = extension"

definition blacklist_key :: "string \<Rightarrow> string" where
  "blacklist_key jti = ''token_blacklist:'' @ jti"

text \<open>
  \<open>_cleanup_expired\<close>: every key whose expiry is not after \<open>now\<close> is deleted, the
  other entries stay as they are.
\<close>

definition cleanup_expired :: "memory_store \<Rightarrow> timestamp \<Rightarrow> memory_store" where
  "cleanup_expired store now =
     (\<lambda>jti. case store jti of
              None \<Rightarrow> None
            | Some expires_at \<Rightarrow> if expires_at \<le> now then None else Some expires_at)"

text \<open>
  \<open>TokenBlacklist.add\<close>. \<open>expires_at\<close> is computed before the \<open>try\<close> block, so an
  \<open>OverflowError\<close> of that sum leaves the function with nothing sent to Redis and nothing
  stored. The \<open>try\<close> block either returns \<open>True\<close> after a successful \<open>setex\<close>, falls
  through when there is no client, or raises, which the handler swallows. \<open>now\<close> is the
  clock reading used for \<open>expires_at\<close>, \<open>now_cleanup\<close> the later reading taken inside
  \<open>_cleanup_expired\<close>. The result is the returned flag or the raised exception, together
  with the memory store after the call.
\<close>

definition expires_delta_or_default :: "timedelta option \<Rightarrow> timedelta" where
  "expires_delta_or_default expires_delta =
     (case expires_delta of None \<Rightarrow> timedelta_hours 24 | Some d \<Rightarrow> d)"

definition add_try :: "current_app \<Rightarrow> string \<Rightarrow> timedelta \<Rightarrow> exn + bool option" where
  "add_try app jti expires_delta =
     (case get_redis_client app of
        None \<Rightarrow> Inr None
      | Some client \<Rightarrow>
          (case redis_setex client (blacklist_key jti) expires_delta of
             Raises \<Rightarrow> Inl RedisError
           | Returns _ \<Rightarrow> Inr (Some True)))"

definition add ::
  "current_app \<Rightarrow> memory_store \<Rightarrow> string \<Rightarrow> timedelta option \<Rightarrow> timestamp \<Rightarrow> timestamp
     \<Rightarrow> (exn + bool) \<times> memory_store" where
  "add app store jti expires_delta now now_cleanup =
     (let delta = expires_delta_or_default expires_delta
      in case datetime_plus now delta of
           Inl e \<Rightarrow> (Inl e, store)
         | Inr expires_at \<Rightarrow>
             (case add_try app jti delta of
                Inr (Some r) \<Rightarrow> (Inr r, store)
              | Inr None \<Rightarrow>
                  (Inr True, cleanup_expired (store(jti \<mapsto> expires_at)) now_cleanup)
              | Inl e \<Rightarrow>
                  (Inr True, cleanup_expired (store(jti \<mapsto> expires_at)) now_cleanup)))"

text \<open>\<open>TokenBlacklist.is_blacklisted\<close>, with the clock reading \<open>now\<close> of the memory check.\<close>

definition is_blacklisted_try :: "current_app \<Rightarrow> string \<Rightarrow> exn + bool option" where
  "is_blacklisted_try app jti =
     (case get_redis_client app of
        None \<Rightarrow> Inr None
      | Some client \<Rightarrow>
          (case redis_exists client (blacklist_key jti) of
             Raises \<Rightarrow> Inl RedisError
           | Returns n \<Rightarrow> Inr (Some (n > 0))))"

definition is_blacklisted_memory :: "memory_store \<Rightarrow> string \<Rightarrow> timestamp \<Rightarrow> bool \<times> memory_store" where
  "is_blacklisted_memory store jti now =
     (case store jti of
        Some expires_at \<Rightarrow>
          if expires_at > now then (True, store)
          else (False, store(jti := None))
      | None \<Rightarrow> (False, store))"

definition is_blacklisted ::
  "current_app \<Rightarrow> memory_store \<Rightarrow> string \<Rightarrow> timestamp \<Rightarrow> bool \<times> memory_store" where
  "is_blacklisted app store jti now =
     (case is_blacklisted_try app jti of
        Inr (Some r) \<Rightarrow> (r, store)
      | Inr None \<Rightarrow> is_blacklisted_memory store jti now
      | Inl e \<Rightarrow> is_blacklisted_memory store jti now)"

text \<open>
  \<open>check_if_token_revoked\<close>. A payload maps claim names to values; of the values only
  strings and \<open>None\<close> are represented, the two a \<open>jti\<close> claim takes.
\<close>

datatype jwt_value = JNone | JStr string

type_synonym jwt_dict = "string \<rightharpoonup> jwt_value"

definition check_if_token_revoked ::
  "current_app \<Rightarrow> memory_store \<Rightarrow> jwt_dict \<Rightarrow> jwt_dict \<Rightarrow> timestamp \<Rightarrow> bool \<times> memory_store" where
  "check_if_token_revoked app store jwt_header jwt_payload now =
     (case jwt_payload ''jti'' of
        None \<Rightarrow> (False, store)
      | Some JNone \<Rightarrow> (False, store)
      | Some (JStr jti) \<Rightarrow> is_blacklisted app store jti now)"

definition revoke_token ::
  "current_app \<Rightarrow> memory_store \<Rightarrow> string \<Rightarrow> timedelta option \<Rightarrow> timestamp \<Rightarrow> timestamp
     \<Rightarrow> (exn + bool) \<times> memory_store" where
  "revoke_token app store jti expires_delta now now_cleanup =
     add app store jti expires_delta now now_cleanup"

text \<open>
  Example environments: a Redis client that accepts every command and reports every key
  as present, one that raises on every command, and a memory store that holds one entry
  with expiry 5 and one with expiry 500.
\<close>

definition working_redis :: redis_client where
  "working_redis = \<lparr>redis_setex = (\<lambda>key ttl. Returns ()), redis_exists = (\<lambda>key. Returns 1)\<rparr>"

definition failing_redis :: redis_client where
  "failing_redis = \<lparr>redis_setex = (\<lambda>key ttl. Raises), redis_exists = (\<lambda>key. Raises)\<rparr>"

definition stale_store :: memory_store where
  "stale_store = [''old-jti'' \<mapsto> 5, ''live-jti'' \<mapsto> 500]"

definition payload_without_jti :: jwt_dict where
  "payload_without_jti = [''sub'' \<mapsto> JStr ''1234'', ''type'' \<mapsto> JStr ''access'']"

section \<open>Properties of the permission checks\<close>

lemmas scenario_defs = scenario_db_def owner_row_db_def broken_db_def flaky_db_def
  scenario_members_def project7_def task42_def

lemma find_Some_ex: "(\<exists>y. find P ms = Some y) = (\<exists>m \<in> set ms. P m)"
  using find_None_iff [of P ms] by auto

text \<open>
  C1. On a datastore that answers the two queries, \<open>check_project_access\<close> is the
  four-branch reference definition: no project gives \<open>(False, None, None)\<close>, the owner
  gets \<open>(True, project, ''owner'')\<close>, a member gets \<open>(True, project, role of the row)\<close>,
  anybody else \<open>(False, None, None)\<close>. The owner test comes before the membership
  lookup, so an owner who also has a membership row is still reported as \<open>''owner''\<close>.
\<close>

theorem check_project_access_refines:
  assumes "\<not> unavailable db (ProjectGet pid)"
      and "\<not> unavailable db (ProjectMemberFirst pid uid)"
  shows "check_project_access db pid uid = resolve_project_access db pid uid
       \<and> (\<forall>p. project_with_id db pid = Some p \<and> project_owner_id p = uid
              \<longrightarrow> check_project_access db pid uid = (True, Some p, Some ''owner''))"
  using assms
  by (auto simp: check_project_access_def check_project_access_try_def resolve_project_access_def
      project_with_id_def member_row_def Project_query_get_def ProjectMember_query_first_def
      split: option.splits)

theorem check_project_access_refines_witness:
  "check_project_access scenario_db 7 2 = (True, Some project7, Some ''member'')
   \<and> check_project_access scenario_db 7 99 = (False, None, None)
   \<and> check_project_access scenario_db 8 1 = (False, None, None)
   \<and> check_project_access owner_row_db 7 1 = (True, Some project7, Some ''owner'')
   \<and> member_row owner_row_db 7 1 = Some \<lparr>pm_user_id = 1, pm_project_id = 7, pm_role = ''member''\<rparr>"
  using check_project_access_refines [of scenario_db 7 2]
        check_project_access_refines [of scenario_db 7 99]
        check_project_access_refines [of scenario_db 8 1]
        check_project_access_refines [of owner_row_db 7 1]
  by (simp add: scenario_defs resolve_project_access_def project_with_id_def member_row_def)

text \<open>
  C2. On a datastore that answers the two queries, \<open>check_project_admin\<close> is true exactly
  when the project exists and the user is its owner or has a membership row with role
  \<open>''admin''\<close>; a \<open>''member''\<close> row, no row, or no project give false.
\<close>

theorem check_project_admin_iff:
  assumes "\<not> unavailable db (ProjectGet pid)"
      and "\<not> unavailable db (ProjectMemberAdminFirst pid uid)"
  shows "check_project_admin db pid uid \<longleftrightarrow>
     (\<exists>p. project_with_id db pid = Some p \<and>
        (project_owner_id p = uid \<or>
         (\<exists>m \<in> set (project_members db).
             pm_project_id m = pid \<and> pm_user_id m = uid \<and> pm_role m = ''admin'')))"
proof (cases "project_with_id db pid")
  case None
  with assms show ?thesis
    by (simp add: check_project_admin_def check_project_admin_try_def project_with_id_def
        Project_query_get_def)
next
  case (Some p)
  with assms show ?thesis
    by (simp add: check_project_admin_def check_project_admin_try_def project_with_id_def
        Project_query_get_def ProjectMember_query_first_admin_def find_Some_ex)
qed

theorem check_project_admin_iff_witness:
  "check_project_admin scenario_db 7 1 \<and> check_project_admin scenario_db 7 3
   \<and> \<not> check_project_admin scenario_db 7 2 \<and> \<not> check_project_admin scenario_db 7 99
   \<and> \<not> check_project_admin scenario_db 8 1"
  using check_project_admin_iff [of scenario_db 7 1] check_project_admin_iff [of scenario_db 7 3]
        check_project_admin_iff [of scenario_db 7 2] check_project_admin_iff [of scenario_db 7 99]
        check_project_admin_iff [of scenario_db 8 1]
  by (simp add: scenario_defs project_with_id_def)

text \<open>
  C3. When the task lookup answers, \<open>can_modify_task\<close> allows exactly when the task exists
  and the user created it, is assigned to it, or is an admin of its project according to
  \<open>check_project_admin\<close>; it then returns the task, and \<open>(False, None)\<close> in every other
  case.
\<close>

theorem can_modify_task_iff:
  assumes "\<not> unavailable db (TaskGet tid)"
  shows "(fst (can_modify_task db tid uid) \<longleftrightarrow>
            (\<exists>t. task_with_id db tid = Some t \<and>
                 (task_created_by t = uid \<or> task_assigned_to t = Some uid
                  \<or> check_project_admin db (task_project_id t) uid)))
       \<and> can_modify_task db tid uid =
            (if \<exists>t. task_with_id db tid = Some t \<and>
                 (task_created_by t = uid \<or> task_assigned_to t = Some uid
                  \<or> check_project_admin db (task_project_id t) uid)
             then (True, task_with_id db tid)
             else (False, None))"
  using assms
  by (auto simp: can_modify_task_def can_modify_task_try_def Task_query_get_def task_with_id_def
      split: option.splits)

theorem can_modify_task_iff_witness:
  "can_modify_task scenario_db 42 3 = (True, Some task42)
   \<and> can_modify_task scenario_db 42 2 = (True, Some task42)
   \<and> can_modify_task scenario_db 42 4 = (False, None)
   \<and> can_modify_task scenario_db 43 2 = (False, None)"
  using can_modify_task_iff [of scenario_db 42 3] can_modify_task_iff [of scenario_db 42 2]
        can_modify_task_iff [of scenario_db 42 4] can_modify_task_iff [of scenario_db 43 2]
  by (simp add: scenario_defs task_with_id_def check_project_admin_def check_project_admin_try_def
      Project_query_get_def ProjectMember_query_first_admin_def)

text \<open>
  C4. When the task lookup answers, \<open>check_task_access\<close> on an existing task agrees with
  \<open>check_project_access\<close> on the task's project in the flag and in the role, and returns
  the task in place of the project when access is granted; a task id without a row gives
  \<open>(False, None, None)\<close>.
\<close>

theorem check_task_access_delegates:
  assumes "\<not> unavailable db (TaskGet tid)"
  shows "(\<forall>t. task_with_id db tid = Some t \<longrightarrow>
            fst (check_task_access db tid uid) = fst (check_project_access db (task_project_id t) uid)
          \<and> snd (snd (check_task_access db tid uid))
              = snd (snd (check_project_access db (task_project_id t) uid))
          \<and> fst (snd (check_task_access db tid uid))
              = (if fst (check_project_access db (task_project_id t) uid) then Some t else None))
       \<and> (task_with_id db tid = None \<longrightarrow> check_task_access db tid uid = (False, None, None))"
  using assms
  by (auto simp: check_task_access_def check_task_access_try_def Task_query_get_def task_with_id_def
      check_project_access_def check_project_access_try_def Project_query_get_def
      ProjectMember_query_first_def
      split: option.splits sum.splits prod.splits)

theorem check_task_access_delegates_witness:
  "check_task_access scenario_db 42 4 = (True, Some task42, Some ''member'')
   \<and> check_project_access scenario_db 7 4 = (True, Some project7, Some ''member'')
   \<and> check_task_access scenario_db 42 99 = (False, None, None)
   \<and> check_task_access scenario_db 43 1 = (False, None, None)"
  using check_task_access_delegates [of scenario_db 42 4]
        check_task_access_delegates [of scenario_db 42 99]
        check_task_access_delegates [of scenario_db 43 1]
  by (simp add: scenario_defs task_with_id_def check_project_access_def check_project_access_try_def
      Project_query_get_def ProjectMember_query_first_def prod_eq_iff)

lemma cpa_project_get_raises:
  "unavailable db (ProjectGet pid) \<Longrightarrow> check_project_access db pid uid = (False, None, None)"
  by (simp add: check_project_access_def check_project_access_try_def Project_query_get_def)

lemma cpa_member_first_raises:
  "unavailable db (ProjectMemberFirst pid uid) \<Longrightarrow> project_with_id db pid = Some p \<Longrightarrow>
   project_owner_id p \<noteq> uid \<Longrightarrow> check_project_access db pid uid = (False, None, None)"
  by (simp add: check_project_access_def check_project_access_try_def Project_query_get_def
      ProjectMember_query_first_def project_with_id_def)

lemma cpadmin_project_get_raises:
  "unavailable db (ProjectGet pid) \<Longrightarrow> \<not> check_project_admin db pid uid"
  by (simp add: check_project_admin_def check_project_admin_try_def Project_query_get_def)

lemma cpadmin_member_first_raises:
  "unavailable db (ProjectMemberAdminFirst pid uid) \<Longrightarrow> project_with_id db pid = Some p \<Longrightarrow>
   project_owner_id p \<noteq> uid \<Longrightarrow> \<not> check_project_admin db pid uid"
  by (simp add: check_project_admin_def check_project_admin_try_def Project_query_get_def
      ProjectMember_query_first_admin_def project_with_id_def)

lemma cta_task_get_raises:
  "unavailable db (TaskGet tid) \<Longrightarrow> check_task_access db tid uid = (False, None, None)"
  by (simp add: check_task_access_def check_task_access_try_def Task_query_get_def)

lemma cta_nested_raises:
  "task_with_id db tid = Some t \<Longrightarrow> check_project_access_try db (task_project_id t) uid = Inl e
   \<Longrightarrow> check_task_access db tid uid = (False, None, None)"
  by (simp add: check_task_access_def check_task_access_try_def Task_query_get_def
      task_with_id_def check_project_access_def)

lemma cmt_task_get_raises:
  "unavailable db (TaskGet tid) \<Longrightarrow> can_modify_task db tid uid = (False, None)"
  by (simp add: can_modify_task_def can_modify_task_try_def Task_query_get_def)

lemma cmt_nested_raises:
  "task_with_id db tid = Some t \<Longrightarrow> task_created_by t \<noteq> uid \<Longrightarrow> task_assigned_to t \<noteq> Some uid
   \<Longrightarrow> check_project_admin_try db (task_project_id t) uid = Inl e
   \<Longrightarrow> can_modify_task db tid uid = (False, None)"
  by (simp add: can_modify_task_def can_modify_task_try_def Task_query_get_def
      task_with_id_def check_project_admin_def)

text \<open>
  C5. The four checks fail closed. The result types carry no exception, so nothing is
  propagated, and the functions only read the datastore. Whenever a query that a check
  sends raises (the project lookup, the membership lookup after a found project that the
  user does not own, the task lookup, or a query of the nested project check), the check
  returns its denying value.
\<close>

theorem access_checks_fail_closed:
  "(unavailable db (ProjectGet pid) \<longrightarrow> check_project_access db pid uid = (False, None, None))
   \<and> (unavailable db (ProjectMemberFirst pid uid)
        \<and> (\<exists>p. project_with_id db pid = Some p \<and> project_owner_id p \<noteq> uid)
        \<longrightarrow> check_project_access db pid uid = (False, None, None))
   \<and> (unavailable db (ProjectGet pid) \<longrightarrow> \<not> check_project_admin db pid uid)
   \<and> (unavailable db (ProjectMemberAdminFirst pid uid)
        \<and> (\<exists>p. project_with_id db pid = Some p \<and> project_owner_id p \<noteq> uid)
        \<longrightarrow> \<not> check_project_admin db pid uid)
   \<and> (unavailable db (TaskGet tid) \<longrightarrow> check_task_access db tid uid = (False, None, None))
   \<and> (\<forall>t e. task_with_id db tid = Some t
          \<and> check_project_access_try db (task_project_id t) uid = Inl e
        \<longrightarrow> check_task_access db tid uid = (False, None, None))
   \<and> (unavailable db (TaskGet tid) \<longrightarrow> can_modify_task db tid uid = (False, None))
   \<and> (\<forall>t e. task_with_id db tid = Some t
          \<and> task_created_by t \<noteq> uid \<and> task_assigned_to t \<noteq> Some uid
          \<and> check_project_admin_try db (task_project_id t) uid = Inl e
        \<longrightarrow> can_modify_task db tid uid = (False, None))"
  using cpa_project_get_raises [of db pid uid] cpa_member_first_raises [of db pid uid]
        cpadmin_project_get_raises [of db pid uid] cpadmin_member_first_raises [of db pid uid]
        cta_task_get_raises [of db tid uid] cta_nested_raises [of db tid _ uid]
        cmt_task_get_raises [of db tid uid] cmt_nested_raises [of db tid _ uid]
  by blast

theorem access_checks_fail_closed_witness:
  "check_project_access broken_db 7 1 = (False, None, None)
   \<and> check_project_access flaky_db 7 2 = (False, None, None)
   \<and> \<not> check_project_admin broken_db 7 1
   \<and> \<not> check_project_admin flaky_db 7 3
   \<and> check_task_access broken_db 42 1 = (False, None, None)
   \<and> check_task_access flaky_db 42 4 = (False, None, None)
   \<and> can_modify_task broken_db 42 2 = (False, None)
   \<and> can_modify_task flaky_db 42 3 = (False, None)"
proof -
  have broken: "unavailable broken_db q" for q
    by (simp add: broken_db_def)
  have flaky1: "unavailable flaky_db (ProjectMemberFirst pid uid)" for pid uid
    by (simp add: flaky_db_def)
  have flaky2: "unavailable flaky_db (ProjectMemberAdminFirst pid uid)" for pid uid
    by (simp add: flaky_db_def)
  have p7: "project_with_id flaky_db 7 = Some project7"
    by (simp add: project_with_id_def scenario_defs)
  have own: "project_owner_id project7 = 1"
    by (simp add: project7_def)
  have t42: "task_with_id flaky_db 42 = Some task42"
    by (simp add: task_with_id_def scenario_defs)
  have t42f: "task_project_id task42 = 7" "task_created_by task42 = 2"
     "task_assigned_to task42 = None"
    by (simp_all add: task42_def)
  have acc: "check_project_access_try flaky_db 7 4 = Inl DatastoreError"
    by (simp add: check_project_access_try_def Project_query_get_def
        ProjectMember_query_first_def scenario_defs)
  have adm: "check_project_admin_try flaky_db 7 3 = Inl DatastoreError"
    by (simp add: check_project_admin_try_def Project_query_get_def
        ProjectMember_query_first_admin_def scenario_defs)
  show ?thesis
    using access_checks_fail_closed [of broken_db 7 1 42]
          access_checks_fail_closed [of broken_db 7 2 42]
          access_checks_fail_closed [of flaky_db 7 2 42]
          access_checks_fail_closed [of flaky_db 7 3 42]
          access_checks_fail_closed [of flaky_db 7 4 42]
    by (simp add: broken flaky1 flaky2 p7 own t42 t42f acc adm)
qed

text \<open>
  C9. The components of every result agree: the flag of \<open>check_project_access\<close> and of
  \<open>check_task_access\<close> is true exactly when the returned object is present and exactly
  when the returned role is present; the flag of \<open>can_modify_task\<close> is true exactly when
  the returned task is present. This holds on every datastore, raising or not.
\<close>

theorem result_shape_coherent:
  "fst (check_project_access db pid uid) = (fst (snd (check_project_access db pid uid)) \<noteq> None)
   \<and> fst (check_project_access db pid uid) = (snd (snd (check_project_access db pid uid)) \<noteq> None)
   \<and> fst (check_task_access db tid uid) = (fst (snd (check_task_access db tid uid)) \<noteq> None)
   \<and> fst (check_task_access db tid uid) = (snd (snd (check_task_access db tid uid)) \<noteq> None)
   \<and> fst (can_modify_task db tid uid) = (snd (can_modify_task db tid uid) \<noteq> None)"
  by (auto simp: check_task_access_def check_task_access_try_def Task_query_get_def
      check_project_access_def check_project_access_try_def Project_query_get_def
      ProjectMember_query_first_def can_modify_task_def can_modify_task_try_def
      split: option.splits sum.splits prod.splits)

section \<open>Properties of the token blacklist\<close>

lemma add_overflow:
  "\<not> datetime_in_range (now + expires_delta_or_default ed) \<Longrightarrow>
   add app store jti ed now now_cleanup = (Inl OverflowError, store)"
  by (simp add: add_def datetime_plus_def Let_def)

lemma add_redis_ok:
  "datetime_in_range (now + expires_delta_or_default ed) \<Longrightarrow>
   get_redis_client app = Some client \<Longrightarrow>
   redis_setex client (blacklist_key jti) (expires_delta_or_default ed) = Returns u \<Longrightarrow>
   add app store jti ed now now_cleanup = (Inr True, store)"
  by (simp add: add_def add_try_def datetime_plus_def Let_def)

lemma add_no_redis:
  "datetime_in_range (now + expires_delta_or_default ed) \<Longrightarrow>
   get_redis_client app = None \<Longrightarrow>
   add app store jti ed now now_cleanup =
     (Inr True, cleanup_expired (store(jti \<mapsto> now + expires_delta_or_default ed)) now_cleanup)"
  by (simp add: add_def add_try_def datetime_plus_def Let_def)

lemma add_redis_raises:
  "datetime_in_range (now + expires_delta_or_default ed) \<Longrightarrow>
   get_redis_client app = Some client \<Longrightarrow>
   redis_setex client (blacklist_key jti) (expires_delta_or_default ed) = Raises \<Longrightarrow>
   add app store jti ed now now_cleanup =
     (Inr True, cleanup_expired (store(jti \<mapsto> now + expires_delta_or_default ed)) now_cleanup)"
  by (simp add: add_def add_try_def datetime_plus_def Let_def)

lemma add_memory_path:
  assumes "datetime_in_range (now + expires_delta_or_default ed)"
    and "get_redis_client app = None
     \<or> (\<exists>client. get_redis_client app = Some client
           \<and> redis_setex client (blacklist_key jti) (expires_delta_or_default ed) = Raises)"
  shows "add app store jti ed now now_cleanup =
     (Inr True, cleanup_expired (store(jti \<mapsto> now + expires_delta_or_default ed)) now_cleanup)"
  using assms add_no_redis add_redis_raises by blast


lemma cleanup_expired_lookup:
  "cleanup_expired store now jti = Some e \<longleftrightarrow> store jti = Some e \<and> now < e"
  by (auto simp: cleanup_expired_def split: option.splits)





lemma is_blacklisted_memory_backend:
  "get_redis_client app = None
     \<or> (\<exists>client. get_redis_client app = Some client
           \<and> redis_exists client (blacklist_key jti) = Raises) \<Longrightarrow>
   is_blacklisted app store jti now = is_blacklisted_memory store jti now"
  by (auto simp: is_blacklisted_def is_blacklisted_try_def)

text \<open>
  C7. With the memory store as backend (no Redis client, or Redis raising), an \<open>add\<close>
  whose expiry is a representable \<open>datetime\<close>, and a clock that does not run backwards
  between the cleanup of \<open>add\<close> and the read: \<open>add\<close> returns \<open>True\<close>, and afterwards
  \<open>is_blacklisted\<close> is true at every time before the recorded expiry and false from the
  expiry on; an entry found expired at a read is deleted by that read and reported as
  absent, an unexpired one is reported and kept.
\<close>

theorem memory_blacklist_expiry:
  assumes in_range: "datetime_in_range (now + expires_delta_or_default ed)"
    and add_memory: "get_redis_client app = None
     \<or> (\<exists>client. get_redis_client app = Some client
           \<and> redis_setex client (blacklist_key jti) (expires_delta_or_default ed) = Raises)"
    and read_memory: "get_redis_client app' = None
     \<or> (\<exists>client. get_redis_client app' = Some client
           \<and> redis_exists client (blacklist_key jti) = Raises)"
    and clock: "now_cleanup \<le> t"
  shows "fst (add app store jti ed now now_cleanup) = Inr True
       \<and> fst (is_blacklisted app' (snd (add app store jti ed now now_cleanup)) jti t)
           = (t < now + expires_delta_or_default ed)
       \<and> (\<forall>s e. s jti = Some e \<and> e \<le> t
              \<longrightarrow> is_blacklisted app' s jti t = (False, s(jti := None)))
       \<and> (\<forall>s e. s jti = Some e \<and> t < e
              \<longrightarrow> is_blacklisted app' s jti t = (True, s))"
proof -
  have whole: "add app store jti ed now now_cleanup =
      (Inr True, cleanup_expired (store(jti \<mapsto> now + expires_delta_or_default ed)) now_cleanup)"
    using in_range add_memory by (rule add_memory_path)
  have rd: "is_blacklisted app' s jti t = is_blacklisted_memory s jti t" for s
    using read_memory by (rule is_blacklisted_memory_backend)
  have "fst (is_blacklisted_memory
          (cleanup_expired (store(jti \<mapsto> now + expires_delta_or_default ed)) now_cleanup) jti t)
        = (t < now + expires_delta_or_default ed)"
    using clock by (auto simp: is_blacklisted_memory_def cleanup_expired_def)
  then show ?thesis
    by (simp add: whole rd is_blacklisted_memory_def)
qed

theorem memory_blacklist_expiry_witness:
  "fst (is_blacklisted OutsideAppContext
          (snd (add (AppContext (Some failing_redis)) stale_store ''new-jti'' (Some 30) 10 11))
          ''new-jti'' 39)
   \<and> \<not> fst (is_blacklisted OutsideAppContext
          (snd (add (AppContext (Some failing_redis)) stale_store ''new-jti'' (Some 30) 10 11))
          ''new-jti'' 40)
   \<and> fst (add (AppContext (Some failing_redis)) stale_store ''new-jti'' (Some 30) 10 11)
        = Inr True
   \<and> is_blacklisted (AppContext (Some failing_redis)) stale_store ''old-jti'' 5
        = (False, stale_store(''old-jti'' := None))
   \<and> is_blacklisted (AppContext (Some failing_redis)) stale_store ''live-jti'' 5
        = (True, stale_store)"
  using memory_blacklist_expiry
          [of 10 "Some 30" "AppContext (Some failing_redis)" "''new-jti''" OutsideAppContext
              11 39 stale_store]
        memory_blacklist_expiry
          [of 10 "Some 30" "AppContext (Some failing_redis)" "''new-jti''" OutsideAppContext
              11 40 stale_store]
        memory_blacklist_expiry
          [of 5 None OutsideAppContext "''old-jti''" "AppContext (Some failing_redis)"
              5 5 stale_store]
        memory_blacklist_expiry
          [of 5 None OutsideAppContext "''live-jti''" "AppContext (Some failing_redis)"
              5 5 stale_store]
  by (simp add: failing_redis_def expires_delta_or_default_def stale_store_def
      timedelta_hours_def datetime_in_range_def datetime_min_def datetime_max_def)

text \<open>
  C8, as stated, fails: when the Redis \<open>setex\<close> returns, \<open>add\<close> returns \<open>True\<close> before
  \<open>_cleanup_expired\<close> is reached, and an expired entry stays in the memory store.
\<close>

theorem cleanup_skipped_on_redis_success:
  "fst (add (AppContext (Some working_redis)) stale_store ''new-jti'' None 10 10) = Inr True
   \<and> snd (add (AppContext (Some working_redis)) stale_store ''new-jti'' None 10 10) ''old-jti''
        = Some 5
   \<and> (5::int) \<le> 10"
  by (simp add: add_def add_try_def working_redis_def stale_store_def Let_def datetime_plus_def
      datetime_in_range_def datetime_min_def datetime_max_def expires_delta_or_default_def
      timedelta_hours_def)

text \<open>
  C8, amended. For every \<open>add\<close> whose expiry is a representable \<open>datetime\<close>: if the call
  takes the memory path (no Redis client, or \<open>setex\<close> raising), it returns \<open>True\<close> and
  the memory store afterwards holds no entry whose expiry is at or before the time read
  by the cleanup; if the Redis \<open>setex\<close> returns, the call returns \<open>True\<close> before the
  cleanup and the memory store is left as it was.
\<close>

theorem add_memory_path_leaves_no_expired:
  assumes "datetime_in_range (now + expires_delta_or_default ed)"
  shows "(get_redis_client app = None
          \<or> (\<exists>client. get_redis_client app = Some client
                \<and> redis_setex client (blacklist_key jti) (expires_delta_or_default ed) = Raises)
          \<longrightarrow> fst (add app store jti ed now now_cleanup) = Inr True
            \<and> (\<forall>k e. snd (add app store jti ed now now_cleanup) k = Some e
                    \<longrightarrow> now_cleanup < e))
       \<and> (\<forall>client u. get_redis_client app = Some client
              \<and> redis_setex client (blacklist_key jti) (expires_delta_or_default ed) = Returns u
            \<longrightarrow> add app store jti ed now now_cleanup = (Inr True, store))"
proof -
  have mem: "fst (add app store jti ed now now_cleanup) = Inr True
      \<and> (\<forall>k e. snd (add app store jti ed now now_cleanup) k = Some e \<longrightarrow> now_cleanup < e)"
    if "get_redis_client app = None
        \<or> (\<exists>client. get_redis_client app = Some client
              \<and> redis_setex client (blacklist_key jti) (expires_delta_or_default ed) = Raises)"
    using add_memory_path [OF assms that, of store now_cleanup]
    by (simp add: cleanup_expired_lookup)
  have ok: "add app store jti ed now now_cleanup = (Inr True, store)"
    if "get_redis_client app = Some client"
      and "redis_setex client (blacklist_key jti) (expires_delta_or_default ed) = Returns u"
    for client u
    using assms that by (rule add_redis_ok)
  from mem ok show ?thesis
    by blast
qed

theorem add_memory_path_leaves_no_expired_witness:
  "snd (add OutsideAppContext stale_store ''new-jti'' None 10 10) ''old-jti'' = None
   \<and> snd (add OutsideAppContext stale_store ''new-jti'' None 10 10) ''live-jti'' = Some 500
   \<and> snd (add OutsideAppContext stale_store ''new-jti'' (Some 0) 10 10) ''new-jti'' = None
   \<and> add (AppContext (Some working_redis)) stale_store ''new-jti'' None 10 10
        = (Inr True, stale_store)"
proof -
  have r: "datetime_in_range (10 + expires_delta_or_default None)"
    "datetime_in_range (10 + expires_delta_or_default (Some 0))"
    by (simp_all add: expires_delta_or_default_def timedelta_hours_def datetime_in_range_def
        datetime_min_def datetime_max_def)
  have a: "snd (add OutsideAppContext stale_store ''new-jti'' None 10 10) ''live-jti'' = Some 500"
    by (simp add: add_no_redis [OF r(1)] cleanup_expired_def stale_store_def)
  have old: "snd (add OutsideAppContext stale_store ''new-jti'' None 10 10) ''old-jti''
      = None \<or> snd (add OutsideAppContext stale_store ''new-jti'' None 10 10) ''old-jti'' = Some 5"
    by (simp add: add_no_redis [OF r(1)] cleanup_expired_def stale_store_def)
  have new: "snd (add OutsideAppContext stale_store ''new-jti'' (Some 0) 10 10) ''new-jti''
      = None \<or> snd (add OutsideAppContext stale_store ''new-jti'' (Some 0) 10 10) ''new-jti''
      = Some 10"
    by (simp add: add_no_redis [OF r(2)] cleanup_expired_def expires_delta_or_default_def)
  have b: "snd (add OutsideAppContext stale_store ''new-jti'' None 10 10) ''old-jti'' \<noteq> Some 5"
    using add_memory_path_leaves_no_expired
            [OF r(1), of OutsideAppContext "''new-jti''" stale_store 10]
    by fastforce
  have c: "snd (add OutsideAppContext stale_store ''new-jti'' (Some 0) 10 10) ''new-jti''
      \<noteq> Some 10"
    using add_memory_path_leaves_no_expired
            [OF r(2), of OutsideAppContext "''new-jti''" stale_store 10]
    by fastforce
  have d: "add (AppContext (Some working_redis)) stale_store ''new-jti'' None 10 10
      = (Inr True, stale_store)"
    using add_memory_path_leaves_no_expired
            [OF r(1), of "AppContext (Some working_redis)" "''new-jti''" stale_store 10]
    by (simp add: working_redis_def)
  from a old new b c d show ?thesis
    by blast
qed

text \<open>
  C10. For a payload without a \<open>jti\<close> key, \<open>check_if_token_revoked\<close> returns \<open>False\<close>
  whatever the Redis client and the memory store are, and leaves the memory store as it
  was: the blacklist is not consulted and nothing is raised.
\<close>

theorem missing_jti_not_revoked:
  assumes "jwt_payload ''jti'' = None"
  shows "check_if_token_revoked app store jwt_header jwt_payload now = (False, store)"
  using assms by (simp add: check_if_token_revoked_def)

theorem missing_jti_not_revoked_witness:
  "check_if_token_revoked (AppContext (Some working_redis)) stale_store Map.empty
      payload_without_jti 3 = (False, stale_store)
   \<and> check_if_token_revoked (AppContext (Some failing_redis)) stale_store Map.empty
      payload_without_jti 3 = (False, stale_store)
   \<and> is_blacklisted (AppContext (Some working_redis)) stale_store ''any'' 3 = (True, stale_store)"
  using missing_jti_not_revoked [of payload_without_jti "AppContext (Some working_redis)" stale_store Map.empty 3]
        missing_jti_not_revoked [of payload_without_jti "AppContext (Some failing_redis)" stale_store Map.empty 3]
  by (simp add: payload_without_jti_def is_blacklisted_def is_blacklisted_try_def working_redis_def)

end
